theory Spec2Isabelle
  imports Complex_Main "HOL-Library.Word"
begin

unbundle bit_operations_syntax

section \<open>util/core.hpp: the string hash\<close>

text \<open>
  \<open>size_t\<close> is the 64-bit unsigned integer of the LP64 targets: \<open>*\<close> wraps modulo
  \<open>2 ^ 64\<close>. The literals \<open>2166136261u\<close> and \<open>16777619u\<close> are \<open>unsigned int\<close> and are
  zero-extended to \<open>size_t\<close>.
\<close>

type_synonym size_t = "64 word"

definition fnv_seed :: size_t where
  "fnv_seed = 2166136261"

definition fnv_prime :: size_t where
  "fnv_prime = 16777619"

text \<open>
  In \<open>x ^ s[I]\<close> the \<open>char\<close> operand is promoted to \<open>int\<close> and then converted to
  \<open>size_t\<close>. Plain \<open>char\<close> is signed on these targets, so a byte above 127 is
  sign-extended.
\<close>

definition char_to_size_t :: "char \<Rightarrow> size_t" where
  "char_to_size_t c = scast (of_char c :: 8 word)"

text \<open>
  \<open>_hash_calc<N, I>::apply(s)\<close>. The primary template recurses on \<open>I + 1\<close>; the partial
  specialisation \<open>_hash_calc<N, N>\<close> returns the seed. \<open>const_hash\<close> starts at \<open>I = 0\<close>,
  so \<open>I \<le> N\<close> holds at every instantiation and the test \<open>I < N\<close> selects the primary
  template exactly when \<open>I \<noteq> N\<close>. The array \<open>s\<close> has \<open>N\<close> elements.
\<close>

function hash_calc :: "nat \<Rightarrow> nat \<Rightarrow> string \<Rightarrow> size_t" where
  "hash_calc N I s =
     (if I < N then (hash_calc N (I + 1) s XOR char_to_size_t (s ! I)) * fnv_prime
      else fnv_seed)"
  by pat_completeness auto
termination
  by (relation "measure (\<lambda>(N, I, s). N - I)") auto

declare hash_calc.simps [simp del]

text \<open>\<open>const_hash(s)\<close> for an array \<open>const char (&s)[N]\<close>: \<open>N\<close> is the array length.\<close>

definition const_hash :: "string \<Rightarrow> size_t" where
  "const_hash s = hash_calc (length s) 0 s"

text \<open>
  A string literal is an array holding the characters followed by the terminator, so
  \<open>"abc"\<close> has \<open>N = 4\<close>.
\<close>

definition literal :: "string \<Rightarrow> string" where
  "literal cs = cs @ [CHR 0x00]"

text \<open>
  Modelled from the spec: the body of \<open>hash\<close>, of which core.hpp holds only the
  declaration \<open>size_t hash(const char* s)\<close>. The spec calls it the run-time equivalent
  of \<open>const_hash\<close> over a null-terminated string, the same fold with the same seed and
  multiplier, XOR then multiply per byte, from the last byte to the first. The
  argument is the memory at \<open>s\<close>; the string is read up to its first terminator, and
  the terminator is folded as \<open>const_hash\<close> folds its terminator slot. Memory without
  a terminator is outside the function's contract and gives \<open>None\<close>.
\<close>

fun hash :: "string \<Rightarrow> size_t option" where
  "hash [] = None"
| "hash (c # cs) =
     (if c = CHR 0x00 then Some ((fnv_seed XOR char_to_size_t c) * fnv_prime)
      else map_option (\<lambda>next. (next XOR char_to_size_t c) * fnv_prime) (hash cs))"

text \<open>
  The fold as the spec words it: seed \<open>2166136261\<close>, multiplier \<open>16777619\<close>, XOR then
  multiply per byte, from index \<open>N - 1\<close> down to index \<open>0\<close>. \<open>fnv_down s i h\<close> has the
  indices below \<open>i\<close> still to process and \<open>h\<close> as the digest so far.
\<close>

fun fnv_down :: "string \<Rightarrow> nat \<Rightarrow> size_t \<Rightarrow> size_t" where
  "fnv_down s 0 h = h"
| "fnv_down s (Suc i) h = fnv_down s i ((h XOR char_to_size_t (s ! i)) * 16777619)"

definition fnv_from_last :: "string \<Rightarrow> size_t" where
  "fnv_from_last s = fnv_down s (length s) 2166136261"

section \<open>Numbers of util/transform.cpp\<close>

text \<open>
  The arguments of the transform builders are \<open>float\<close>s, and every operation on them
  is a single-precision operation. An argument is modelled by a \<open>real\<close>, a finite
  value. A computed value is a \<open>flt\<close>: finite, or \<open>NonFinite\<close> for an infinity or
  a NaN. Rounding is not modelled: a result inside the \<open>float\<close> range, tiny ones
  included, is taken as the exact value.

  Overflow is modelled. The largest \<open>float\<close> is \<open>2^128 - 2^104\<close>, and under rounding
  to nearest an exact result of magnitude \<open>2^128 - 2^103\<close> or more becomes an
  infinity. \<open>fl x\<close> is the result of one \<open>+\<close>, \<open>-\<close> or \<open>*\<close> on finite operands
  whose exact value is \<open>x\<close>.
\<close>

datatype flt = Fin real | NonFinite

definition in_float_range :: "real \<Rightarrow> bool" where
  "in_float_range x \<longleftrightarrow> \<bar>x\<bar> < 2 ^ 128 - 2 ^ 103"

definition fl :: "real \<Rightarrow> flt" where
  "fl x = (if in_float_range x then Fin x else NonFinite)"

text \<open>
  \<open>a * n\<close> for a computed \<open>a\<close> and an argument \<open>n\<close>: an infinity times \<open>n\<close> is an
  infinity, or NaN when \<open>n\<close> is zero.
\<close>

definition fl_mul :: "flt \<Rightarrow> real \<Rightarrow> flt" where
  "fl_mul a n = (case a of Fin x \<Rightarrow> fl (x * n) | NonFinite \<Rightarrow> NonFinite)"

text \<open>
  \<open>a / d\<close> for computed \<open>a\<close> and \<open>d\<close>, where \<open>d\<close> is the difference of two arguments:
  when \<open>d\<close> is not finite it is an infinity (the difference of two finite values is
  never NaN). A non-finite dividend gives an infinity or NaN whatever the divisor, a
  finite dividend over an infinity is zero, a finite dividend over zero is an infinity
  or NaN, and otherwise the quotient is finite unless it overflows.
\<close>

definition fl_div :: "flt \<Rightarrow> flt \<Rightarrow> flt" where
  "fl_div a d =
     (case a of
        NonFinite \<Rightarrow> NonFinite
      | Fin x \<Rightarrow> (case d of
                   NonFinite \<Rightarrow> Fin 0
                 | Fin y \<Rightarrow> if y = 0 then NonFinite else fl (x / y)))"

text \<open>
  \<open>frustum\<close> and \<open>ortho\<close> multiply and divide arguments of any size, and each of
  their operations goes through \<open>fl\<close>, \<open>fl_mul\<close> or \<open>fl_div\<close>. The values that
  \<open>rotation\<close> computes with are at most 3 in magnitude, and \<open>translation\<close> only
  stores its arguments, so no operation of theirs can overflow; they use the operations
  below, which are exact on finite operands. With a non-finite operand \<open>+\<close>, \<open>-\<close>
  and \<open>*\<close> are non-finite, as in IEEE 754. \<open>fdiv\<close> is the quotient of
  \<open>normalize\<close>, a component over the length, at most 1 in magnitude, or a division
  by zero.
\<close>

definition fdiv :: "real \<Rightarrow> real \<Rightarrow> flt" where
  "fdiv a b = (if b = 0 then NonFinite else Fin (a / b))"

instantiation flt :: "{zero, one, plus, minus, uminus, times}"
begin

definition zero_flt :: flt where
  "zero_flt = Fin 0"

definition one_flt :: flt where
  "one_flt = Fin 1"

definition plus_flt :: "flt \<Rightarrow> flt \<Rightarrow> flt" where
  "plus_flt a b = (case a of Fin x \<Rightarrow> (case b of Fin y \<Rightarrow> Fin (x + y) | NonFinite \<Rightarrow> NonFinite)
                   | NonFinite \<Rightarrow> NonFinite)"

definition minus_flt :: "flt \<Rightarrow> flt \<Rightarrow> flt" where
  "minus_flt a b = (case a of Fin x \<Rightarrow> (case b of Fin y \<Rightarrow> Fin (x - y) | NonFinite \<Rightarrow> NonFinite)
                    | NonFinite \<Rightarrow> NonFinite)"

definition uminus_flt :: "flt \<Rightarrow> flt" where
  "uminus_flt a = (case a of Fin x \<Rightarrow> Fin (- x) | NonFinite \<Rightarrow> NonFinite)"

definition times_flt :: "flt \<Rightarrow> flt \<Rightarrow> flt" where
  "times_flt a b = (case a of Fin x \<Rightarrow> (case b of Fin y \<Rightarrow> Fin (x * y) | NonFinite \<Rightarrow> NonFinite)
                    | NonFinite \<Rightarrow> NonFinite)"

instance ..

end

subsection \<open>Types declared outside util/transform.cpp\<close>

text \<open>
  Modelled from the spec: \<open>Vec3f\<close>, \<open>Quaternion\<close> and \<open>Gl_Matrix\<close>, which transform.hpp
  and num.hpp declare and which are not among the sources. \<open>Vec3f\<close> has three
  components read by \<open>v[i]\<close>, \<open>Quaternion\<close> four (scalar first), and \<open>Gl_Matrix\<close> is
  sixteen entries, listed row by row in a braced initialiser and read by \<open>m[i][j]\<close>
  with \<open>i\<close> the row. The sources index a \<open>Vec3f\<close> with 0, 1, 2 and a \<open>Quaternion\<close> with
  0 to 3 only; the last branch of \<open>vec3_at\<close> and of \<open>quat_at\<close> is the index 2 and 3.
\<close>

datatype 'a vec3 = Vec3 'a 'a 'a

fun vec3_at :: "'a vec3 \<Rightarrow> nat \<Rightarrow> 'a" where
  "vec3_at (Vec3 a b c) i = (if i = 0 then a else if i = 1 then b else c)"

datatype quaternion = Quaternion real real real real

fun quat_at :: "quaternion \<Rightarrow> nat \<Rightarrow> real" where
  "quat_at (Quaternion a b c d) i = (if i = 0 then a else if i = 1 then b else if i = 2 then c else d)"

type_synonym Gl_Matrix = "flt list list"

definition mat_at :: "Gl_Matrix \<Rightarrow> nat \<Rightarrow> nat \<Rightarrow> flt" where
  "mat_at m i j = m ! i ! j"

definition mat_set :: "Gl_Matrix \<Rightarrow> nat \<Rightarrow> nat \<Rightarrow> flt \<Rightarrow> Gl_Matrix" where
  "mat_set m i j v = m[i := (m ! i)[j := v]]"

text \<open>Modelled from the spec: \<open>Gl_Matrix::unit()\<close>, which makes the matrix the identity.\<close>

definition unit :: Gl_Matrix where
  "unit = [[1, 0, 0, 0],
           [0, 1, 0, 0],
           [0, 0, 1, 0],
           [0, 0, 0, 1]]"

text \<open>
  Modelled from the spec: \<open>Vec3f::normalize()\<close>, which scales the vector to unit length
  by dividing each component by the Euclidean length. The length of the zero vector
  is zero, and the division then gives non-finite components.
\<close>

fun normalize :: "real vec3 \<Rightarrow> flt vec3" where
  "normalize (Vec3 x y z) =
     (let len = sqrt (x * x + y * y + z * z)
      in Vec3 (fdiv x len) (fdiv y len) (fdiv z len))"

subsection \<open>Assertions\<close>

text \<open>
  \<open>BOOST_ASSERT(expr)\<close> evaluates \<open>expr\<close> when checks are enabled and, when it is false,
  reports the expression with its source location and terminates the process; with
  \<open>NDEBUG\<close> it expands to nothing. A terminated call is the value
  \<open>Inl (Assertion_failed expr line)\<close>, the line being that of transform.cpp.
\<close>

datatype failure = Assertion_failed string nat

section \<open>util/transform.cpp\<close>

text \<open>
  The first argument of \<open>frustum\<close>, \<open>ortho\<close> and \<open>perspective\<close> is the build mode:
  \<open>True\<close> when assertions are compiled in, \<open>False\<close> under \<open>NDEBUG\<close>.
\<close>

definition frustum ::
  "bool \<Rightarrow> real \<Rightarrow> real \<Rightarrow> real \<Rightarrow> real \<Rightarrow> real \<Rightarrow> real \<Rightarrow> failure + Gl_Matrix" where
  "frustum checks l r b t n f =
     (if checks \<and> l = r then Inl (Assertion_failed ''l != r'' 11)
      else if checks \<and> b = t then Inl (Assertion_failed ''b != t'' 12)
      else if checks \<and> n = f then Inl (Assertion_failed ''n != f'' 13)
      else Inr
        [[fl_div (fl (2 * n)) (fl (r - l)), 0, fl_div (fl (r + l)) (fl (r - l)), 0],
         [0, fl_div (fl (2 * n)) (fl (t - b)), fl_div (fl (t + b)) (fl (t - b)), 0],
         [0, 0, fl_div (- fl (f + n)) (fl (f - n)), fl_div (fl_mul (fl (- 2 * f)) n) (fl (f - n))],
         [0, 0, Fin (- 1), 0]])"

definition ortho ::
  "bool \<Rightarrow> real \<Rightarrow> real \<Rightarrow> real \<Rightarrow> real \<Rightarrow> real \<Rightarrow> real \<Rightarrow> failure + Gl_Matrix" where
  "ortho checks l r b t n f =
     (if checks \<and> l = r then Inl (Assertion_failed ''l != r'' 26)
      else if checks \<and> b = t then Inl (Assertion_failed ''b != t'' 27)
      else if checks \<and> n = f then Inl (Assertion_failed ''n != f'' 28)
      else Inr
        [[fl_div (Fin 2) (fl (r - l)), 0, 0, fl_div (- fl (r + l)) (fl (r - l))],
         [0, fl_div (Fin 2) (fl (t - b)), 0, fl_div (- fl (t + b)) (fl (t - b))],
         [0, 0, fl_div (Fin (- 2)) (fl (f - n)), fl_div (fl (f + n)) (fl (f - n))],
         [0, 0, 0, 0]])"

text \<open>
  \<open>pi\<close> comes from num.hpp, which is not among the sources; it is taken as the
  number \<open>\<pi>\<close>. The tangent of a \<open>float\<close> is finite, since no \<open>float\<close> is an odd
  multiple of \<open>\<pi>/2\<close>; at such a real argument HOL's \<open>tan\<close> is \<open>0\<close>. The products
  \<open>fh\<close> and \<open>fw\<close> are taken exactly and handed to \<open>frustum\<close> as its arguments.
\<close>

definition perspective ::
  "bool \<Rightarrow> real \<Rightarrow> real \<Rightarrow> real \<Rightarrow> real \<Rightarrow> failure + Gl_Matrix" where
  "perspective checks v_fov aspect z_near z_far =
     (let fh = tan (v_fov / 360 * pi) * z_near;
          fw = fh * aspect
      in frustum checks (- fw) fw (- fh) fh z_near z_far)"

text \<open>The loop \<open>for (int i = 0; i < 3; i++) result[3][i] = delta[i];\<close> of \<open>translation\<close>.\<close>

function translation_loop :: "nat \<Rightarrow> real vec3 \<Rightarrow> Gl_Matrix \<Rightarrow> Gl_Matrix" where
  "translation_loop i delta result =
     (if i < 3 then translation_loop (i + 1) delta (mat_set result 3 i (Fin (vec3_at delta i)))
      else result)"
  by pat_completeness auto
termination
  by (relation "measure (\<lambda>(i, delta, result). 3 - i)") auto

declare translation_loop.simps [simp del]

definition translation :: "real vec3 \<Rightarrow> Gl_Matrix" where
  "translation delta = translation_loop 0 delta unit"

text \<open>\<open>rotation(const Vec3f& axis, float angle)\<close>, the axis-angle overload.\<close>

definition rotation :: "real vec3 \<Rightarrow> real \<Rightarrow> Gl_Matrix" where
  "rotation axis angle =
     (let u = normalize axis;
          x = vec3_at u 0; y = vec3_at u 1; z = vec3_at u 2;
          c = Fin (cos angle); s = Fin (sin angle)
      in [[c + x * x * (1 - c),     x * y * (1 - c) - z * s, x * z * (1 - c) + y * s, 0],
          [y * x * (1 - c) + z * s, c + y * y * (1 - c),     y * z * (1 - c) - x * s, 0],
          [z * x * (1 - c) - y * s, z * y * (1 - c) + x * s, c + z * z * (1 - c),     0],
          [0,                       0,                       0,                       1]])"

text \<open>\<open>rotation(const Quaternion& q)\<close>, the quaternion overload.\<close>

definition rotation_q :: "quaternion \<Rightarrow> Gl_Matrix" where
  "rotation_q q =
     (let q0 = quat_at q 0; q1 = quat_at q 1; q2 = quat_at q 2; q3 = quat_at q 3
      in [[Fin (1 - (2 * q2 * q2 + 2 * q3 * q3)), Fin (2 * q1 * q2 + 2 * q3 * q0),       Fin (2 * q1 * q3 - 2 * q2 * q0),       0],
          [Fin (2 * q1 * q2 - 2 * q3 * q0),       Fin (1 - (2 * q1 * q1 + 2 * q3 * q3)), Fin (2 * q2 * q3 + 2 * q1 * q0),       0],
          [Fin (2 * q1 * q3 + 2 * q2 * q0),       Fin (2 * q2 * q3 - 2 * q1 * q0),       Fin (1 - (2 * q1 * q1 + 2 * q2 * q2)), 0],
          [0,                                     0,                                     0,                                     1]])"

section \<open>Notions of the specification\<close>



text \<open>
  The standard orthographic projection (\<open>glOrtho\<close>), first three rows: scaling
  \<open>2/(r-l)\<close>, \<open>2/(t-b)\<close>, \<open>-2/(f-n)\<close> and translation \<open>-(r+l)/(r-l)\<close>, \<open>-(t+b)/(t-b)\<close>,
  \<open>-(f+n)/(f-n)\<close>. It sends the near plane \<open>z = -n\<close> to \<open>-1\<close> and the far plane
  \<open>z = -f\<close> to \<open>1\<close>.
\<close>

definition ortho_standard_rows :: "real \<Rightarrow> real \<Rightarrow> real \<Rightarrow> real \<Rightarrow> real \<Rightarrow> real \<Rightarrow> real list list" where
  "ortho_standard_rows l r b t n f =
     [[2 / (r - l), 0,           0,             - (r + l) / (r - l)],
      [0,           2 / (t - b), 0,             - (t + b) / (t - b)],
      [0,           0,           - 2 / (f - n), - (f + n) / (f - n)]]"

text \<open>
  The canonical conversion of an axis and an angle to a quaternion,
  \<open>q = (cos(angle/2), sin(angle/2) \<cdot> normalize(axis))\<close>, for a non-zero axis.
\<close>

fun axis_angle_quaternion :: "real vec3 \<Rightarrow> real \<Rightarrow> quaternion" where
  "axis_angle_quaternion (Vec3 x y z) angle =
     (let len = sqrt (x * x + y * y + z * z)
      in Quaternion (cos (angle / 2)) (sin (angle / 2) * (x / len))
           (sin (angle / 2) * (y / len)) (sin (angle / 2) * (z / len)))"

text \<open>Transposition, product and the upper-left 3x3 block of matrices given by rows.\<close>

definition mat_transpose :: "flt list list \<Rightarrow> flt list list" where
  "mat_transpose m = map (\<lambda>j. map (\<lambda>row. row ! j) m) [0..<length (hd m)]"

definition dot :: "flt list \<Rightarrow> flt list \<Rightarrow> flt" where
  "dot u v = foldr (+) (map2 (*) u v) 0"

definition mat_mul :: "flt list list \<Rightarrow> flt list list \<Rightarrow> flt list list" where
  "mat_mul a b = map (\<lambda>row. map (\<lambda>col. dot row col) (mat_transpose b)) a"

definition upper3 :: "flt list list \<Rightarrow> flt list list" where
  "upper3 m = map (take 3) (take 3 m)"

definition identity3 :: "flt list list" where
  "identity3 = [[1, 0, 0], [0, 1, 0], [0, 0, 1]]"

text \<open>
  A matrix applied to a vector: to a column vector on its right (\<open>M v\<close>) and to a row
  vector on its left (\<open>v M\<close>).
\<close>

definition mat_vec :: "flt list list \<Rightarrow> flt list \<Rightarrow> flt list" where
  "mat_vec m v = map (\<lambda>row. dot row v) m"

definition vec_mat :: "flt list \<Rightarrow> flt list list \<Rightarrow> flt list" where
  "vec_mat v m = map (\<lambda>col. dot v col) (mat_transpose m)"

definition vec_length :: "real list \<Rightarrow> real" where
  "vec_length v = sqrt (sum_list (map (\<lambda>x. x * x) v))"

section \<open>Results on the string hash\<close>

lemma hash_calc_foldr:
  "I \<le> length s \<Longrightarrow>
   hash_calc (length s) I s =
     foldr (\<lambda>c h. (h XOR char_to_size_t c) * fnv_prime) (drop I s) fnv_seed"
proof (induction "length s - I" arbitrary: I)
  case 0
  then have "I = length s" by simp
  then show ?case by (simp add: hash_calc.simps)
next
  case (Suc k)
  then have lt: "I < length s" by simp
  then have step: "drop I s = s ! I # drop (Suc I) s"
    by (simp add: Cons_nth_drop_Suc)
  from Suc lt have "hash_calc (length s) (Suc I) s =
      foldr (\<lambda>c h. (h XOR char_to_size_t c) * fnv_prime) (drop (Suc I) s) fnv_seed"
    by simp
  with lt step show ?case
    by (simp add: hash_calc.simps [of "length s" I])
qed

lemma const_hash_foldr:
  "const_hash s = foldr (\<lambda>c h. (h XOR char_to_size_t c) * fnv_prime) s fnv_seed"
  by (simp add: const_hash_def hash_calc_foldr)

lemma fnv_down_foldr:
  "i \<le> length s \<Longrightarrow>
   fnv_down s i h = foldr (\<lambda>c h. (h XOR char_to_size_t c) * fnv_prime) (take i s) h"
proof (induction i arbitrary: h)
  case 0
  then show ?case by simp
next
  case (Suc i)
  then have "take (Suc i) s = take i s @ [s ! i]"
    by (simp add: take_Suc_conv_app_nth)
  with Suc show ?case by (simp add: fnv_prime_def)
qed

lemma hash_foldr:
  "CHR 0x00 \<notin> set cs \<Longrightarrow>
   hash (cs @ CHR 0x00 # rest) =
     Some (foldr (\<lambda>c h. (h XOR char_to_size_t c) * fnv_prime) (cs @ [CHR 0x00]) fnv_seed)"
  by (induction cs) auto

text \<open>
  C7. For every character array, \<open>const_hash\<close> is the fold with seed \<open>2166136261\<close> and
  multiplier \<open>16777619\<close> that XORs and then multiplies per byte, running from the last
  index \<open>N - 1\<close> down to index \<open>0\<close>. For a string literal the last index is the
  terminator slot, which is folded first: the digest of the characters continues from
  \<open>(2166136261 XOR 0) * 16777619\<close>. In particular the digest of the empty literal
  is that value and not the bare seed.
\<close>

theorem const_hash_fold_from_last:
  "const_hash s = fnv_from_last s
   \<and> const_hash (literal cs) =
       fnv_down (literal cs) (length cs) ((2166136261 XOR char_to_size_t CHR 0x00) * 16777619)
   \<and> const_hash (literal []) = (2166136261 XOR 0) * 16777619
   \<and> const_hash (literal []) \<noteq> 2166136261"
proof -
  have whole: "const_hash s = fnv_from_last s" for s
    by (simp add: const_hash_foldr fnv_from_last_def fnv_down_foldr fnv_seed_def fnv_prime_def)
  have "fnv_from_last (literal cs) =
      fnv_down (literal cs) (length cs) ((2166136261 XOR char_to_size_t CHR 0x00) * 16777619)"
    by (simp add: fnv_from_last_def literal_def)
  moreover have "const_hash (literal []) = (2166136261 XOR 0) * 16777619"
    by (simp add: const_hash_foldr literal_def fnv_seed_def fnv_prime_def char_to_size_t_def)
  moreover have "const_hash (literal []) \<noteq> 2166136261"
    by (simp add: const_hash_foldr literal_def fnv_seed_def fnv_prime_def char_to_size_t_def)
  ultimately show ?thesis
    using whole by simp
qed

theorem const_hash_fold_from_last_witness:
  "const_hash (literal ''ab'') = 18099145477535151698
   \<and> fnv_from_last (literal ''ab'') = 18099145477535151698"
proof -
  have "const_hash (literal ''ab'') = 18099145477535151698"
    by (simp add: const_hash_foldr literal_def fnv_seed_def fnv_prime_def char_to_size_t_def)
  then show ?thesis
    using const_hash_fold_from_last [of "literal ''ab''" "[]"] by simp
qed

text \<open>
  C6. For every string (a sequence of characters without a terminator inside), the
  run-time \<open>hash\<close> of the null-terminated string in memory, whatever follows the
  terminator there, returns the digest that \<open>const_hash\<close> computes for the
  corresponding array, the characters followed by the terminator.
\<close>

theorem hash_eq_const_hash:
  "CHR 0x00 \<notin> set cs \<Longrightarrow> hash (cs @ CHR 0x00 # rest) = Some (const_hash (literal cs))"
  by (simp add: hash_foldr const_hash_foldr literal_def)

theorem hash_eq_const_hash_witness:
  "CHR 0x00 \<notin> set ''ab''
   \<and> hash (''ab'' @ CHR 0x00 # ''junk'') = Some (const_hash (literal ''ab''))
   \<and> hash (''ab'' @ CHR 0x00 # ''junk'') = Some 18099145477535151698"
proof -
  have h: "CHR 0x00 \<notin> set ''ab''" by simp
  have v: "hash (''ab'' @ CHR 0x00 # ''junk'') = Some 18099145477535151698"
    by (simp add: fnv_seed_def fnv_prime_def char_to_size_t_def)
  show ?thesis
    using h v hash_eq_const_hash [OF h, of "''junk''"] by simp
qed

section \<open>Results on the transform builders\<close>

subsection \<open>Arithmetic of computed values\<close>



lemma fl_div_zero: "fl_div a (fl 0) = NonFinite"
  by (simp add: fl_div_def fl_def in_float_range_def split: flt.split)


lemma flt_arith:
  "Fin x + Fin y = Fin (x + y)" "Fin x - Fin y = Fin (x - y)" "Fin x * Fin y = Fin (x * y)"
  "- Fin x = Fin (- x)" "(0::flt) = Fin 0" "(1::flt) = Fin 1"
  by (simp_all add: plus_flt_def minus_flt_def times_flt_def uminus_flt_def zero_flt_def one_flt_def)

lemma upt_0_3: "[0..<3] = [0, 1, 2]"
  by (simp add: upt_rec numeral_3_eq_3)

lemma upt_0_4: "[0..<4] = [0, 1, 2, 3]"
  by (simp add: upt_rec numeral_eq_Suc)

subsection \<open>Projections\<close>




text \<open>
  C2. \<open>ortho(0, 2, 0, 2, 1, 3)\<close>: the last row is zero, and the first three rows are
  the standard ones except for the entry \<open>[2][3]\<close>, which is \<open>2\<close> where the standard
  formula gives \<open>-2\<close>.
\<close>

theorem ortho_depth_translation_sign:
  "ortho True 0 2 0 2 1 3 = Inr
     [[Fin 1, Fin 0, Fin 0,     Fin (- 1)],
      [Fin 0, Fin 1, Fin 0,     Fin (- 1)],
      [Fin 0, Fin 0, Fin (- 1), Fin 2],
      [Fin 0, Fin 0, Fin 0,     Fin 0]]
   \<and> ortho_standard_rows 0 2 0 2 1 3 =
     [[1, 0, 0,   - 1],
      [0, 1, 0,   - 1],
      [0, 0, - 1, - 2]]"
  by (simp add: ortho_def ortho_standard_rows_def fl_def fl_div_def in_float_range_def flt_arith)

text \<open>
  C3. For every field of view, aspect ratio, \<open>zNear\<close> and \<open>zFar\<close> (so in particular for
  a field of view between 0 and 180 degrees and a positive aspect ratio), and in either
  build mode, \<open>perspective\<close> returns what \<open>frustum(-w, w, -h, h, zNear, zFar)\<close> returns,
  a matrix or a failed assertion alike, where \<open>h\<close> is the tangent of half the field of
  view in radians times \<open>zNear\<close> and \<open>w = h * aspect\<close>.
\<close>

theorem perspective_is_frustum:
  "perspective checks fov aspect zNear zFar =
     (let h = tan (fov / 2 * (pi / 180)) * zNear; w = h * aspect
      in frustum checks (- w) w (- h) h zNear zFar)"
proof -
  have "fov / 360 * pi = fov / 2 * (pi / 180)" by simp
  then show ?thesis by (simp add: perspective_def Let_def)
qed

theorem perspective_is_frustum_witness:
  "perspective True 90 1 1 3 = Inr
     [[Fin 1, Fin 0, Fin 0,     Fin 0],
      [Fin 0, Fin 1, Fin 0,     Fin 0],
      [Fin 0, Fin 0, Fin (- 2), Fin (- 3)],
      [Fin 0, Fin 0, Fin (- 1), Fin 0]]"
proof -
  have "(90::real) / 2 * (pi / 180) = pi / 4" by simp
  then show ?thesis
    using perspective_is_frustum [of True 90 1 1 3]
    by (simp add: tan_45 frustum_def fl_def fl_div_def fl_mul_def in_float_range_def flt_arith)
qed

text \<open>
  C8. With \<open>left = right\<close>, \<open>bottom = top\<close> or \<open>near = far\<close>: when assertions are
  compiled in, \<open>frustum\<close> and \<open>ortho\<close> terminate with the first failed condition and
  its source line; under \<open>NDEBUG\<close> they check nothing and return the matrix of their
  formula, in which the two entries divided by each vanishing difference are not
  finite, the quotients of a division by zero, and every other entry is as for
  non-degenerate bounds.
\<close>

theorem degenerate_bounds:
  "l = r \<or> b = t \<or> n = f \<Longrightarrow>
   frustum True l r b t n f =
     Inl (if l = r then Assertion_failed ''l != r'' 11
          else if b = t then Assertion_failed ''b != t'' 12
          else Assertion_failed ''n != f'' 13)
   \<and> ortho True l r b t n f =
     Inl (if l = r then Assertion_failed ''l != r'' 26
          else if b = t then Assertion_failed ''b != t'' 27
          else Assertion_failed ''n != f'' 28)
   \<and> frustum False l r b t n f = Inr
       [[if l = r then NonFinite else fl_div (fl (2 * n)) (fl (r - l)), Fin 0,
         if l = r then NonFinite else fl_div (fl (r + l)) (fl (r - l)), Fin 0],
        [Fin 0, if b = t then NonFinite else fl_div (fl (2 * n)) (fl (t - b)),
         if b = t then NonFinite else fl_div (fl (t + b)) (fl (t - b)), Fin 0],
        [Fin 0, Fin 0, if n = f then NonFinite else fl_div (- fl (f + n)) (fl (f - n)),
         if n = f then NonFinite else fl_div (fl_mul (fl (- 2 * f)) n) (fl (f - n))],
        [Fin 0, Fin 0, Fin (- 1), Fin 0]]
   \<and> ortho False l r b t n f = Inr
       [[if l = r then NonFinite else fl_div (Fin 2) (fl (r - l)), Fin 0, Fin 0,
         if l = r then NonFinite else fl_div (- fl (r + l)) (fl (r - l))],
        [Fin 0, if b = t then NonFinite else fl_div (Fin 2) (fl (t - b)), Fin 0,
         if b = t then NonFinite else fl_div (- fl (t + b)) (fl (t - b))],
        [Fin 0, Fin 0, if n = f then NonFinite else fl_div (Fin (- 2)) (fl (f - n)),
         if n = f then NonFinite else fl_div (fl (f + n)) (fl (f - n))],
        [Fin 0, Fin 0, Fin 0, Fin 0]]
   \<and> (\<exists>m. frustum False l r b t n f = Inr m \<and> NonFinite \<in> set (concat m))
   \<and> (\<exists>m. ortho False l r b t n f = Inr m \<and> NonFinite \<in> set (concat m))"
proof -
  assume deg: "l = r \<or> b = t \<or> n = f"
  have c1: "frustum True l r b t n f =
     Inl (if l = r then Assertion_failed ''l != r'' 11
          else if b = t then Assertion_failed ''b != t'' 12
          else Assertion_failed ''n != f'' 13)"
    using deg by (auto simp add: frustum_def)
  have c2: "ortho True l r b t n f =
     Inl (if l = r then Assertion_failed ''l != r'' 26
          else if b = t then Assertion_failed ''b != t'' 27
          else Assertion_failed ''n != f'' 28)"
    using deg by (auto simp add: ortho_def)
  have c3: "frustum False l r b t n f = Inr
       [[if l = r then NonFinite else fl_div (fl (2 * n)) (fl (r - l)), Fin 0,
         if l = r then NonFinite else fl_div (fl (r + l)) (fl (r - l)), Fin 0],
        [Fin 0, if b = t then NonFinite else fl_div (fl (2 * n)) (fl (t - b)),
         if b = t then NonFinite else fl_div (fl (t + b)) (fl (t - b)), Fin 0],
        [Fin 0, Fin 0, if n = f then NonFinite else fl_div (- fl (f + n)) (fl (f - n)),
         if n = f then NonFinite else fl_div (fl_mul (fl (- 2 * f)) n) (fl (f - n))],
        [Fin 0, Fin 0, Fin (- 1), Fin 0]]"
    by (simp add: frustum_def flt_arith fl_div_zero)
  have c4: "ortho False l r b t n f = Inr
       [[if l = r then NonFinite else fl_div (Fin 2) (fl (r - l)), Fin 0, Fin 0,
         if l = r then NonFinite else fl_div (- fl (r + l)) (fl (r - l))],
        [Fin 0, if b = t then NonFinite else fl_div (Fin 2) (fl (t - b)), Fin 0,
         if b = t then NonFinite else fl_div (- fl (t + b)) (fl (t - b))],
        [Fin 0, Fin 0, if n = f then NonFinite else fl_div (Fin (- 2)) (fl (f - n)),
         if n = f then NonFinite else fl_div (fl (f + n)) (fl (f - n))],
        [Fin 0, Fin 0, Fin 0, Fin 0]]"
    by (simp add: ortho_def flt_arith fl_div_zero)
  have c5: "\<exists>m. frustum False l r b t n f = Inr m \<and> NonFinite \<in> set (concat m)"
    unfolding c3 using deg by auto
  have c6: "\<exists>m. ortho False l r b t n f = Inr m \<and> NonFinite \<in> set (concat m)"
    unfolding c4 using deg by auto
  from c1 c2 c3 c4 c5 c6 show ?thesis by blast
qed

theorem degenerate_bounds_witness:
  "((1::real) = 1 \<or> (0::real) = 2 \<or> (1::real) = 3)
   \<and> frustum True 1 1 0 2 1 3 = Inl (Assertion_failed ''l != r'' 11)
   \<and> ortho True 1 1 0 2 1 3 = Inl (Assertion_failed ''l != r'' 26)
   \<and> frustum False 1 1 0 2 1 3 = Inr
       [[NonFinite, Fin 0, NonFinite, Fin 0],
        [Fin 0,     Fin 1, Fin 1,     Fin 0],
        [Fin 0,     Fin 0, Fin (- 2), Fin (- 3)],
        [Fin 0,     Fin 0, Fin (- 1), Fin 0]]
   \<and> ortho False 1 1 0 2 1 3 = Inr
       [[NonFinite, Fin 0, Fin 0,     NonFinite],
        [Fin 0,     Fin 1, Fin 0,     Fin (- 1)],
        [Fin 0,     Fin 0, Fin (- 1), Fin 2],
        [Fin 0,     Fin 0, Fin 0,     Fin 0]]"
proof -
  have h: "(1::real) = 1 \<or> (0::real) = 2 \<or> (1::real) = 3" by simp
  show ?thesis
    using degenerate_bounds [OF h]
    by (simp add: fl_def fl_div_def fl_mul_def in_float_range_def flt_arith)
qed

text \<open>
  C10. With \<open>vFov = 0\<close> or \<open>zNear = 0\<close>, whatever the aspect ratio and \<open>zFar\<close>, the
  half-height and the half-width that \<open>perspective\<close> computes are both zero: the call it
  delegates to is \<open>frustum(-0, 0, -0, 0, zNear, zFar)\<close>. With assertions compiled in,
  that call fails on \<open>l != r\<close>; under \<open>NDEBUG\<close> nothing is checked and a matrix is
  returned.
\<close>

theorem perspective_degenerate:
  "v_fov = 0 \<or> z_near = 0 \<Longrightarrow>
   perspective checks v_fov aspect z_near z_far = frustum checks (- 0) 0 (- 0) 0 z_near z_far
   \<and> perspective True v_fov aspect z_near z_far = Inl (Assertion_failed ''l != r'' 11)
   \<and> (\<exists>m. perspective False v_fov aspect z_near z_far = Inr m)"
  by (auto simp add: perspective_def frustum_def)

theorem perspective_degenerate_witness:
  "((0::real) = 0 \<or> (1::real) = 0)
   \<and> perspective True 0 2 1 10 = Inl (Assertion_failed ''l != r'' 11)
   \<and> perspective True 60 2 0 10 = Inl (Assertion_failed ''l != r'' 11)"
proof -
  have h1: "(0::real) = 0 \<or> (1::real) = 0" by simp
  have h2: "(60::real) = 0 \<or> (0::real) = 0" by simp
  show ?thesis
    using h1 perspective_degenerate [OF h1, of True 2 10] perspective_degenerate [OF h2, of True 2 10]
    by (simp add: frustum_def)
qed

subsection \<open>Translation\<close>

lemma translation_loop_fold:
  "i \<le> 3 \<Longrightarrow>
   translation_loop i delta result =
     fold (\<lambda>k m. mat_set m 3 k (Fin (vec3_at delta k))) [i..<3] result"
proof (induction "3 - i" arbitrary: i result)
  case 0
  then have "i = 3" by simp
  then show ?case by (simp add: translation_loop.simps)
next
  case (Suc k)
  then have lt: "i < 3" by simp
  then have "[i..<3] = i # [Suc i..<3]" by (simp add: upt_conv_Cons)
  moreover from Suc lt have "translation_loop (Suc i) delta (mat_set result 3 i (Fin (vec3_at delta i))) =
      fold (\<lambda>k m. mat_set m 3 k (Fin (vec3_at delta k))) [Suc i..<3] (mat_set result 3 i (Fin (vec3_at delta i)))"
    by simp
  ultimately show ?case using lt
    by (simp add: translation_loop.simps [of i])
qed

lemma translation_rows:
  "translation (Vec3 x y z) =
     [[Fin 1, Fin 0, Fin 0, Fin 0],
      [Fin 0, Fin 1, Fin 0, Fin 0],
      [Fin 0, Fin 0, Fin 1, Fin 0],
      [Fin x, Fin y, Fin z, Fin 1]]"
  by (simp add: translation_def translation_loop_fold upt_0_3 unit_def mat_set_def flt_arith)

text \<open>
  C9. For every \<open>d = (x, y, z)\<close>, \<open>translation(d)\<close> is the identity matrix with \<open>x\<close>,
  \<open>y\<close>, \<open>z\<close> stored in the entries \<open>[3][0]\<close>, \<open>[3][1]\<close>, \<open>[3][2]\<close> of the last row. The
  homogeneous origin \<open>(0, 0, 0, 1)\<close>, as a row vector times the matrix, is
  \<open>(x, y, z, 1)\<close>.
\<close>

theorem translation_last_row:
  "translation (Vec3 x y z) =
     [[1,     0,     0,     0],
      [0,     1,     0,     0],
      [0,     0,     1,     0],
      [Fin x, Fin y, Fin z, 1]]
   \<and> translation (Vec3 x y z) = mat_set (mat_set (mat_set unit 3 0 (Fin x)) 3 1 (Fin y)) 3 2 (Fin z)
   \<and> vec_mat [0, 0, 0, 1] (translation (Vec3 x y z)) = [Fin x, Fin y, Fin z, 1]"
  by (simp add: translation_rows vec_mat_def mat_transpose_def dot_def upt_0_4 flt_arith unit_def mat_set_def)

theorem translation_last_row_witness:
  "translation (Vec3 5 6 7) =
     [[Fin 1, Fin 0, Fin 0, Fin 0],
      [Fin 0, Fin 1, Fin 0, Fin 0],
      [Fin 0, Fin 0, Fin 1, Fin 0],
      [Fin 5, Fin 6, Fin 7, Fin 1]]
   \<and> vec_mat [Fin 0, Fin 0, Fin 0, Fin 1] (translation (Vec3 5 6 7)) = [Fin 5, Fin 6, Fin 7, Fin 1]"
  using translation_last_row [of 5 6 7]
  by (simp add: flt_arith vec_mat_def mat_transpose_def dot_def upt_0_4)

subsection \<open>Rotations\<close>

lemma sum_squares_pos:
  fixes x y z :: real
  assumes "(x, y, z) \<noteq> (0, 0, 0)"
  shows "0 < x * x + y * y + z * z"
proof -
  have nz: "x \<noteq> 0 \<or> y \<noteq> 0 \<or> z \<noteq> 0" using assms by simp
  have "0 \<le> x * x" "0 \<le> y * y" "0 \<le> z * z" by simp_all
  moreover have "0 < x * x \<or> 0 < y * y \<or> 0 < z * z"
    using nz by (auto simp add: zero_less_mult_iff)
  ultimately show ?thesis by linarith
qed

lemma normalize_unit:
  fixes x y z :: real
  assumes "(x, y, z) \<noteq> (0, 0, 0)"
  defines "len \<equiv> sqrt (x * x + y * y + z * z)"
  shows "normalize (Vec3 x y z) = Vec3 (Fin (x / len)) (Fin (y / len)) (Fin (z / len))"
    and "(x / len) * (x / len) + (y / len) * (y / len) + (z / len) * (z / len) = 1"
proof -
  have pos: "0 < x * x + y * y + z * z" using assms(1) by (rule sum_squares_pos)
  then have len0: "len \<noteq> 0" by (simp add: len_def)
  from pos have sq: "len * len = x * x + y * y + z * z"
    by (simp add: len_def)
  show "normalize (Vec3 x y z) = Vec3 (Fin (x / len)) (Fin (y / len)) (Fin (z / len))"
    using len0 by (simp add: fdiv_def len_def Let_def)
  have "(x / len) * (x / len) + (y / len) * (y / len) + (z / len) * (z / len)
      = (x * x + y * y + z * z) / (len * len)"
    by (simp add: add_divide_distrib)
  also have "\<dots> = 1" using pos sq by simp
  finally show "(x / len) * (x / len) + (y / len) * (y / len) + (z / len) * (z / len) = 1" .
qed

lemma rotation_of_unit:
  assumes "normalize axis = Vec3 (Fin x) (Fin y) (Fin z)"
  shows "rotation axis angle =
     [[Fin (cos angle + x * x * (1 - cos angle)), Fin (x * y * (1 - cos angle) - z * sin angle), Fin (x * z * (1 - cos angle) + y * sin angle), Fin 0],
      [Fin (y * x * (1 - cos angle) + z * sin angle), Fin (cos angle + y * y * (1 - cos angle)), Fin (y * z * (1 - cos angle) - x * sin angle), Fin 0],
      [Fin (z * x * (1 - cos angle) - y * sin angle), Fin (z * y * (1 - cos angle) + x * sin angle), Fin (cos angle + z * z * (1 - cos angle)), Fin 0],
      [Fin 0, Fin 0, Fin 0, Fin 1]]"
  using assms by (simp add: rotation_def Let_def flt_arith)

lemma rows_orthonormal:
  fixes x y z c s :: real
  assumes u: "x * x + y * y + z * z = 1" and t: "s * s + c * c = 1"
  shows "(c + x * x * (1 - c)) * (c + x * x * (1 - c)) + (x * y * (1 - c) - z * s) * (x * y * (1 - c) - z * s)
           + (x * z * (1 - c) + y * s) * (x * z * (1 - c) + y * s) = 1"
    and "(y * x * (1 - c) + z * s) * (y * x * (1 - c) + z * s) + (c + y * y * (1 - c)) * (c + y * y * (1 - c))
           + (y * z * (1 - c) - x * s) * (y * z * (1 - c) - x * s) = 1"
    and "(z * x * (1 - c) - y * s) * (z * x * (1 - c) - y * s) + (z * y * (1 - c) + x * s) * (z * y * (1 - c) + x * s)
           + (c + z * z * (1 - c)) * (c + z * z * (1 - c)) = 1"
    and "(c + x * x * (1 - c)) * (y * x * (1 - c) + z * s) + (x * y * (1 - c) - z * s) * (c + y * y * (1 - c))
           + (x * z * (1 - c) + y * s) * (y * z * (1 - c) - x * s) = 0"
    and "(c + x * x * (1 - c)) * (z * x * (1 - c) - y * s) + (x * y * (1 - c) - z * s) * (z * y * (1 - c) + x * s)
           + (x * z * (1 - c) + y * s) * (c + z * z * (1 - c)) = 0"
    and "(y * x * (1 - c) + z * s) * (z * x * (1 - c) - y * s) + (c + y * y * (1 - c)) * (z * y * (1 - c) + x * s)
           + (y * z * (1 - c) - x * s) * (c + z * z * (1 - c)) = 0"
proof -
  have "(c + x * x * (1 - c)) * (c + x * x * (1 - c)) + (x * y * (1 - c) - z * s) * (x * y * (1 - c) - z * s)
           + (x * z * (1 - c) + y * s) * (x * z * (1 - c) + y * s) - 1
     = (x * x * (1 - c) * (1 - c) + s * s) * (x * x + y * y + z * z - 1) + (1 - x * x) * (s * s + c * c - 1)"
    by (simp add: algebra_simps)
  then show "(c + x * x * (1 - c)) * (c + x * x * (1 - c)) + (x * y * (1 - c) - z * s) * (x * y * (1 - c) - z * s)
           + (x * z * (1 - c) + y * s) * (x * z * (1 - c) + y * s) = 1"
    using u t by simp
  have "(y * x * (1 - c) + z * s) * (y * x * (1 - c) + z * s) + (c + y * y * (1 - c)) * (c + y * y * (1 - c))
           + (y * z * (1 - c) - x * s) * (y * z * (1 - c) - x * s) - 1
     = (y * y * (1 - c) * (1 - c) + s * s) * (x * x + y * y + z * z - 1) + (1 - y * y) * (s * s + c * c - 1)"
    by (simp add: algebra_simps)
  then show "(y * x * (1 - c) + z * s) * (y * x * (1 - c) + z * s) + (c + y * y * (1 - c)) * (c + y * y * (1 - c))
           + (y * z * (1 - c) - x * s) * (y * z * (1 - c) - x * s) = 1"
    using u t by simp
  have "(z * x * (1 - c) - y * s) * (z * x * (1 - c) - y * s) + (z * y * (1 - c) + x * s) * (z * y * (1 - c) + x * s)
           + (c + z * z * (1 - c)) * (c + z * z * (1 - c)) - 1
     = (z * z * (1 - c) * (1 - c) + s * s) * (x * x + y * y + z * z - 1) + (1 - z * z) * (s * s + c * c - 1)"
    by (simp add: algebra_simps)
  then show "(z * x * (1 - c) - y * s) * (z * x * (1 - c) - y * s) + (z * y * (1 - c) + x * s) * (z * y * (1 - c) + x * s)
           + (c + z * z * (1 - c)) * (c + z * z * (1 - c)) = 1"
    using u t by simp
  have "(c + x * x * (1 - c)) * (y * x * (1 - c) + z * s) + (x * y * (1 - c) - z * s) * (c + y * y * (1 - c))
           + (x * z * (1 - c) + y * s) * (y * z * (1 - c) - x * s)
     = x * y * (1 - c) * (1 - c) * (x * x + y * y + z * z - 1) - x * y * (s * s + c * c - 1)"
    by (simp add: algebra_simps)
  then show "(c + x * x * (1 - c)) * (y * x * (1 - c) + z * s) + (x * y * (1 - c) - z * s) * (c + y * y * (1 - c))
           + (x * z * (1 - c) + y * s) * (y * z * (1 - c) - x * s) = 0"
    using u t by simp
  have "(c + x * x * (1 - c)) * (z * x * (1 - c) - y * s) + (x * y * (1 - c) - z * s) * (z * y * (1 - c) + x * s)
           + (x * z * (1 - c) + y * s) * (c + z * z * (1 - c))
     = x * z * (1 - c) * (1 - c) * (x * x + y * y + z * z - 1) - x * z * (s * s + c * c - 1)"
    by (simp add: algebra_simps)
  then show "(c + x * x * (1 - c)) * (z * x * (1 - c) - y * s) + (x * y * (1 - c) - z * s) * (z * y * (1 - c) + x * s)
           + (x * z * (1 - c) + y * s) * (c + z * z * (1 - c)) = 0"
    using u t by simp
  have "(y * x * (1 - c) + z * s) * (z * x * (1 - c) - y * s) + (c + y * y * (1 - c)) * (z * y * (1 - c) + x * s)
           + (y * z * (1 - c) - x * s) * (c + z * z * (1 - c))
     = y * z * (1 - c) * (1 - c) * (x * x + y * y + z * z - 1) - y * z * (s * s + c * c - 1)"
    by (simp add: algebra_simps)
  then show "(y * x * (1 - c) + z * s) * (z * x * (1 - c) - y * s) + (c + y * y * (1 - c)) * (z * y * (1 - c) + x * s)
           + (y * z * (1 - c) - x * s) * (c + z * z * (1 - c)) = 0"
    using u t by simp
qed

lemma length_preserved:
  fixes x y z c s a b d :: real
  assumes u: "x * x + y * y + z * z = 1" and t: "s * s + c * c = 1"
  shows "((c + x * x * (1 - c)) * a + (x * y * (1 - c) - z * s) * b + (x * z * (1 - c) + y * s) * d)
           * ((c + x * x * (1 - c)) * a + (x * y * (1 - c) - z * s) * b + (x * z * (1 - c) + y * s) * d)
         + ((y * x * (1 - c) + z * s) * a + (c + y * y * (1 - c)) * b + (y * z * (1 - c) - x * s) * d)
           * ((y * x * (1 - c) + z * s) * a + (c + y * y * (1 - c)) * b + (y * z * (1 - c) - x * s) * d)
         + ((z * x * (1 - c) - y * s) * a + (z * y * (1 - c) + x * s) * b + (c + z * z * (1 - c)) * d)
           * ((z * x * (1 - c) - y * s) * a + (z * y * (1 - c) + x * s) * b + (c + z * z * (1 - c)) * d)
         = a * a + b * b + d * d"
proof -
  have "((c + x * x * (1 - c)) * a + (x * y * (1 - c) - z * s) * b + (x * z * (1 - c) + y * s) * d)
           * ((c + x * x * (1 - c)) * a + (x * y * (1 - c) - z * s) * b + (x * z * (1 - c) + y * s) * d)
         + ((y * x * (1 - c) + z * s) * a + (c + y * y * (1 - c)) * b + (y * z * (1 - c) - x * s) * d)
           * ((y * x * (1 - c) + z * s) * a + (c + y * y * (1 - c)) * b + (y * z * (1 - c) - x * s) * d)
         + ((z * x * (1 - c) - y * s) * a + (z * y * (1 - c) + x * s) * b + (c + z * z * (1 - c)) * d)
           * ((z * x * (1 - c) - y * s) * a + (z * y * (1 - c) + x * s) * b + (c + z * z * (1 - c)) * d)
         - (a * a + b * b + d * d)
     = ((1 - c) * (1 - c) * (x * a + y * b + z * d) * (x * a + y * b + z * d) + s * s * (a * a + b * b + d * d))
         * (x * x + y * y + z * z - 1)
       + (a * a + b * b + d * d - (x * a + y * b + z * d) * (x * a + y * b + z * d)) * (s * s + c * c - 1)"
    by (simp add: algebra_simps)
  then show ?thesis using u t by simp
qed


lemma columns_orthonormal:
  fixes x y z c s :: real
  assumes u: "x * x + y * y + z * z = 1" and t: "s * s + c * c = 1"
  shows "(c + x * x * (1 - c)) * (c + x * x * (1 - c)) + (y * x * (1 - c) + z * s) * (y * x * (1 - c) + z * s)
           + (z * x * (1 - c) - y * s) * (z * x * (1 - c) - y * s) = 1"
    and "(x * y * (1 - c) - z * s) * (x * y * (1 - c) - z * s) + (c + y * y * (1 - c)) * (c + y * y * (1 - c))
           + (z * y * (1 - c) + x * s) * (z * y * (1 - c) + x * s) = 1"
    and "(x * z * (1 - c) + y * s) * (x * z * (1 - c) + y * s) + (y * z * (1 - c) - x * s) * (y * z * (1 - c) - x * s)
           + (c + z * z * (1 - c)) * (c + z * z * (1 - c)) = 1"
    and "(c + x * x * (1 - c)) * (x * y * (1 - c) - z * s) + (y * x * (1 - c) + z * s) * (c + y * y * (1 - c))
           + (z * x * (1 - c) - y * s) * (z * y * (1 - c) + x * s) = 0"
    and "(c + x * x * (1 - c)) * (x * z * (1 - c) + y * s) + (y * x * (1 - c) + z * s) * (y * z * (1 - c) - x * s)
           + (z * x * (1 - c) - y * s) * (c + z * z * (1 - c)) = 0"
    and "(x * y * (1 - c) - z * s) * (x * z * (1 - c) + y * s) + (c + y * y * (1 - c)) * (y * z * (1 - c) - x * s)
           + (z * y * (1 - c) + x * s) * (c + z * z * (1 - c)) = 0"
proof -
  have t': "(- s) * (- s) + c * c = 1" using t by simp
  show "(c + x * x * (1 - c)) * (c + x * x * (1 - c)) + (y * x * (1 - c) + z * s) * (y * x * (1 - c) + z * s)
           + (z * x * (1 - c) - y * s) * (z * x * (1 - c) - y * s) = 1"
    using rows_orthonormal(1) [OF u t'] by (simp add: mult.commute)
  show "(x * y * (1 - c) - z * s) * (x * y * (1 - c) - z * s) + (c + y * y * (1 - c)) * (c + y * y * (1 - c))
           + (z * y * (1 - c) + x * s) * (z * y * (1 - c) + x * s) = 1"
    using rows_orthonormal(2) [OF u t'] by (simp add: mult.commute)
  show "(x * z * (1 - c) + y * s) * (x * z * (1 - c) + y * s) + (y * z * (1 - c) - x * s) * (y * z * (1 - c) - x * s)
           + (c + z * z * (1 - c)) * (c + z * z * (1 - c)) = 1"
    using rows_orthonormal(3) [OF u t'] by (simp add: mult.commute)
  show "(c + x * x * (1 - c)) * (x * y * (1 - c) - z * s) + (y * x * (1 - c) + z * s) * (c + y * y * (1 - c))
           + (z * x * (1 - c) - y * s) * (z * y * (1 - c) + x * s) = 0"
    using rows_orthonormal(4) [OF u t'] by (simp add: mult.commute)
  show "(c + x * x * (1 - c)) * (x * z * (1 - c) + y * s) + (y * x * (1 - c) + z * s) * (y * z * (1 - c) - x * s)
           + (z * x * (1 - c) - y * s) * (c + z * z * (1 - c)) = 0"
    using rows_orthonormal(5) [OF u t'] by (simp add: mult.commute)
  show "(x * y * (1 - c) - z * s) * (x * z * (1 - c) + y * s) + (c + y * y * (1 - c)) * (y * z * (1 - c) - x * s)
           + (z * y * (1 - c) + x * s) * (c + z * z * (1 - c)) = 0"
    using rows_orthonormal(6) [OF u t'] by (simp add: mult.commute)
qed

lemma length_preserved_transposed:
  fixes x y z c s a b d :: real
  assumes u: "x * x + y * y + z * z = 1" and t: "s * s + c * c = 1"
  shows "(a * (c + x * x * (1 - c)) + b * (y * x * (1 - c) + z * s) + d * (z * x * (1 - c) - y * s))
           * (a * (c + x * x * (1 - c)) + b * (y * x * (1 - c) + z * s) + d * (z * x * (1 - c) - y * s))
         + (a * (x * y * (1 - c) - z * s) + b * (c + y * y * (1 - c)) + d * (z * y * (1 - c) + x * s))
           * (a * (x * y * (1 - c) - z * s) + b * (c + y * y * (1 - c)) + d * (z * y * (1 - c) + x * s))
         + (a * (x * z * (1 - c) + y * s) + b * (y * z * (1 - c) - x * s) + d * (c + z * z * (1 - c)))
           * (a * (x * z * (1 - c) + y * s) + b * (y * z * (1 - c) - x * s) + d * (c + z * z * (1 - c)))
         = a * a + b * b + d * d"
proof -
  have t': "(- s) * (- s) + c * c = 1" using t by simp
  show ?thesis
    using length_preserved [OF u t', of a b d] by (simp add: mult.commute)
qed

lemma mat3_products:
  "mat_mul (upper3 [[Fin r00, Fin r01, Fin r02, e0], [Fin r10, Fin r11, Fin r12, e1], [Fin r20, Fin r21, Fin r22, e2], e3])
     (mat_transpose (upper3 [[Fin r00, Fin r01, Fin r02, e0], [Fin r10, Fin r11, Fin r12, e1], [Fin r20, Fin r21, Fin r22, e2], e3])) =
   [[Fin (r00 * r00 + r01 * r01 + r02 * r02), Fin (r00 * r10 + r01 * r11 + r02 * r12), Fin (r00 * r20 + r01 * r21 + r02 * r22)],
    [Fin (r10 * r00 + r11 * r01 + r12 * r02), Fin (r10 * r10 + r11 * r11 + r12 * r12), Fin (r10 * r20 + r11 * r21 + r12 * r22)],
    [Fin (r20 * r00 + r21 * r01 + r22 * r02), Fin (r20 * r10 + r21 * r11 + r22 * r12), Fin (r20 * r20 + r21 * r21 + r22 * r22)]]"
  "mat_mul (mat_transpose (upper3 [[Fin r00, Fin r01, Fin r02, e0], [Fin r10, Fin r11, Fin r12, e1], [Fin r20, Fin r21, Fin r22, e2], e3]))
     (upper3 [[Fin r00, Fin r01, Fin r02, e0], [Fin r10, Fin r11, Fin r12, e1], [Fin r20, Fin r21, Fin r22, e2], e3]) =
   [[Fin (r00 * r00 + r10 * r10 + r20 * r20), Fin (r00 * r01 + r10 * r11 + r20 * r21), Fin (r00 * r02 + r10 * r12 + r20 * r22)],
    [Fin (r01 * r00 + r11 * r10 + r21 * r20), Fin (r01 * r01 + r11 * r11 + r21 * r21), Fin (r01 * r02 + r11 * r12 + r21 * r22)],
    [Fin (r02 * r00 + r12 * r10 + r22 * r20), Fin (r02 * r01 + r12 * r11 + r22 * r21), Fin (r02 * r02 + r12 * r12 + r22 * r22)]]"
  by (simp_all add: mat_mul_def upper3_def mat_transpose_def dot_def upt_0_3 flt_arith)

lemma mat_vec_products:
  "mat_vec [[Fin r00, Fin r01, Fin r02, Fin 0], [Fin r10, Fin r11, Fin r12, Fin 0], [Fin r20, Fin r21, Fin r22, Fin 0],
            [Fin 0, Fin 0, Fin 0, Fin 1]] [Fin a, Fin b, Fin d, Fin w] =
   [Fin (r00 * a + r01 * b + r02 * d), Fin (r10 * a + r11 * b + r12 * d), Fin (r20 * a + r21 * b + r22 * d), Fin w]"
  "vec_mat [Fin a, Fin b, Fin d, Fin w]
           [[Fin r00, Fin r01, Fin r02, Fin 0], [Fin r10, Fin r11, Fin r12, Fin 0], [Fin r20, Fin r21, Fin r22, Fin 0],
            [Fin 0, Fin 0, Fin 0, Fin 1]] =
   [Fin (a * r00 + b * r10 + d * r20), Fin (a * r01 + b * r11 + d * r21), Fin (a * r02 + b * r12 + d * r22), Fin w]"
  by (simp_all add: mat_vec_def vec_mat_def mat_transpose_def dot_def upt_0_4 flt_arith)

lemma vec_length_3: "vec_length [a, b, d] = sqrt (a * a + b * b + d * d)"
  by (simp add: vec_length_def)

lemma mat_transpose_4:
  "mat_transpose [[a0, a1, a2, a3], [b0, b1, b2, b3], [c0, c1, c2, c3], [d0, d1, d2, d3]] =
     [[a0, b0, c0, d0], [a1, b1, c1, d1], [a2, b2, c2, d2], [a3, b3, c3, d3]]"
  by (simp add: mat_transpose_def upt_0_4)

lemma quaternion_diagonal:
  fixes x y z S :: real
  assumes u: "x * x + y * y + z * z = 1"
  shows "1 - (2 * (S * y) * (S * y) + 2 * (S * z) * (S * z)) = 1 - 2 * S * S + x * x * (1 - (1 - 2 * S * S))"
    and "1 - (2 * (S * x) * (S * x) + 2 * (S * z) * (S * z)) = 1 - 2 * S * S + y * y * (1 - (1 - 2 * S * S))"
    and "1 - (2 * (S * x) * (S * x) + 2 * (S * y) * (S * y)) = 1 - 2 * S * S + z * z * (1 - (1 - 2 * S * S))"
proof -
  have "1 - (2 * (S * y) * (S * y) + 2 * (S * z) * (S * z)) - (1 - 2 * S * S + x * x * (1 - (1 - 2 * S * S)))
      = - 2 * S * S * (x * x + y * y + z * z - 1)"
    by (simp add: algebra_simps)
  then show "1 - (2 * (S * y) * (S * y) + 2 * (S * z) * (S * z)) = 1 - 2 * S * S + x * x * (1 - (1 - 2 * S * S))"
    using u by simp
  have "1 - (2 * (S * x) * (S * x) + 2 * (S * z) * (S * z)) - (1 - 2 * S * S + y * y * (1 - (1 - 2 * S * S)))
      = - 2 * S * S * (x * x + y * y + z * z - 1)"
    by (simp add: algebra_simps)
  then show "1 - (2 * (S * x) * (S * x) + 2 * (S * z) * (S * z)) = 1 - 2 * S * S + y * y * (1 - (1 - 2 * S * S))"
    using u by simp
  have "1 - (2 * (S * x) * (S * x) + 2 * (S * y) * (S * y)) - (1 - 2 * S * S + z * z * (1 - (1 - 2 * S * S)))
      = - 2 * S * S * (x * x + y * y + z * z - 1)"
    by (simp add: algebra_simps)
  then show "1 - (2 * (S * x) * (S * x) + 2 * (S * y) * (S * y)) = 1 - 2 * S * S + z * z * (1 - (1 - 2 * S * S))"
    using u by simp
qed

lemma quaternion_off_diagonal:
  fixes x y z S C :: real
  shows "2 * (S * x) * (S * y) + 2 * (S * z) * C = y * x * (1 - (1 - 2 * S * S)) + z * (2 * S * C)"
    and "2 * (S * x) * (S * z) - 2 * (S * y) * C = z * x * (1 - (1 - 2 * S * S)) - y * (2 * S * C)"
    and "2 * (S * x) * (S * y) - 2 * (S * z) * C = x * y * (1 - (1 - 2 * S * S)) - z * (2 * S * C)"
    and "2 * (S * y) * (S * z) + 2 * (S * x) * C = z * y * (1 - (1 - 2 * S * S)) + x * (2 * S * C)"
    and "2 * (S * x) * (S * z) + 2 * (S * y) * C = x * z * (1 - (1 - 2 * S * S)) + y * (2 * S * C)"
    and "2 * (S * y) * (S * z) - 2 * (S * x) * C = y * z * (1 - (1 - 2 * S * S)) - x * (2 * S * C)"
  by (simp_all add: algebra_simps)

lemma half_angle:
  fixes angle :: real
  shows "cos angle = 1 - 2 * sin (angle / 2) * sin (angle / 2)"
    and "sin angle = 2 * sin (angle / 2) * cos (angle / 2)"
  using cos_double_sin [of "angle / 2"] sin_double [of "angle / 2"]
  by (simp_all add: power2_eq_square)

text \<open>
  C5. For every non-zero axis, unit or not, and every angle, the upper-left 3x3 block
  \<open>R\<close> of \<open>rotation(axis, angle)\<close> is orthogonal: \<open>R R\<^sup>T\<close> and \<open>R\<^sup>T R\<close> are the identity.
  Applied to a homogeneous vector \<open>(a, b, d, w)\<close>, as a column on the right or as a row
  on the left, the matrix keeps \<open>w\<close> and the length of \<open>(a, b, d)\<close>.
\<close>

theorem rotation_orthogonal:
  fixes x y z angle a b d w :: real
  defines "R \<equiv> rotation (Vec3 x y z) angle"
  assumes nz: "(x, y, z) \<noteq> (0, 0, 0)"
  shows "mat_mul (upper3 R) (mat_transpose (upper3 R)) = identity3
       \<and> mat_mul (mat_transpose (upper3 R)) (upper3 R) = identity3
       \<and> (\<exists>a' b' d'. mat_vec R [Fin a, Fin b, Fin d, Fin w] = [Fin a', Fin b', Fin d', Fin w]
             \<and> vec_length [a', b', d'] = vec_length [a, b, d])
       \<and> (\<exists>a' b' d'. vec_mat [Fin a, Fin b, Fin d, Fin w] R = [Fin a', Fin b', Fin d', Fin w]
             \<and> vec_length [a', b', d'] = vec_length [a, b, d])"
proof -
  define len where "len = sqrt (x * x + y * y + z * z)"
  define ux uy uz where "ux = x / len" and "uy = y / len" and "uz = z / len"
  define c s where "c = cos angle" and "s = sin angle"
  have n: "normalize (Vec3 x y z) = Vec3 (Fin ux) (Fin uy) (Fin uz)"
    using normalize_unit(1) [OF nz] by (simp add: ux_def uy_def uz_def len_def)
  have u: "ux * ux + uy * uy + uz * uz = 1"
    using normalize_unit(2) [OF nz] by (simp add: ux_def uy_def uz_def len_def)
  have t: "s * s + c * c = 1"
    using sin_cos_squared_add [of angle] by (simp add: c_def s_def power2_eq_square)
  have R: "R =
     [[Fin (c + ux * ux * (1 - c)), Fin (ux * uy * (1 - c) - uz * s), Fin (ux * uz * (1 - c) + uy * s), Fin 0],
      [Fin (uy * ux * (1 - c) + uz * s), Fin (c + uy * uy * (1 - c)), Fin (uy * uz * (1 - c) - ux * s), Fin 0],
      [Fin (uz * ux * (1 - c) - uy * s), Fin (uz * uy * (1 - c) + ux * s), Fin (c + uz * uz * (1 - c)), Fin 0],
      [Fin 0, Fin 0, Fin 0, Fin 1]]"
    unfolding R_def c_def s_def by (rule rotation_of_unit [OF n])
  note rows = rows_orthonormal [OF u t]
  note cols = columns_orthonormal [OF u t]
  have p1: "mat_mul (upper3 R) (mat_transpose (upper3 R)) = identity3"
    unfolding R mat3_products identity3_def flt_arith
    using rows by (simp add: mult.commute)
  have p2: "mat_mul (mat_transpose (upper3 R)) (upper3 R) = identity3"
    unfolding R mat3_products identity3_def flt_arith
    using cols by (simp add: mult.commute)
  have p3: "\<exists>a' b' d'. mat_vec R [Fin a, Fin b, Fin d, Fin w] = [Fin a', Fin b', Fin d', Fin w]
             \<and> vec_length [a', b', d'] = vec_length [a, b, d]"
    unfolding R mat_vec_products vec_length_3
    using length_preserved [OF u t, of a b d] by auto
  have p4: "\<exists>a' b' d'. vec_mat [Fin a, Fin b, Fin d, Fin w] R = [Fin a', Fin b', Fin d', Fin w]
             \<and> vec_length [a', b', d'] = vec_length [a, b, d]"
    unfolding R mat_vec_products vec_length_3
    using length_preserved_transposed [OF u t, of a b d] by auto
  show ?thesis using p1 p2 p3 p4 by simp
qed

theorem rotation_orthogonal_witness:
  "((0::real), (0::real), (2::real)) \<noteq> (0, 0, 0)
   \<and> mat_mul (upper3 (rotation (Vec3 0 0 2) (pi / 2))) (mat_transpose (upper3 (rotation (Vec3 0 0 2) (pi / 2)))) = identity3
   \<and> mat_vec (rotation (Vec3 0 0 2) (pi / 2)) [Fin 3, Fin 4, Fin 0, Fin 1] = [Fin (- 4), Fin 3, Fin 0, Fin 1]
   \<and> vec_length [- 4, 3, 0] = 5 \<and> vec_length [3, 4, 0] = 5"
proof -
  have nz: "((0::real), (0::real), (2::real)) \<noteq> (0, 0, 0)" by simp
  have R: "rotation (Vec3 0 0 2) (pi / 2) =
       [[Fin 0, Fin (- 1), Fin 0, Fin 0],
        [Fin 1, Fin 0,     Fin 0, Fin 0],
        [Fin 0, Fin 0,     Fin 1, Fin 0],
        [Fin 0, Fin 0,     Fin 0, Fin 1]]"
    by (simp add: rotation_def fdiv_def flt_arith Let_def)
  have v: "mat_vec (rotation (Vec3 0 0 2) (pi / 2)) [Fin 3, Fin 4, Fin 0, Fin 1] = [Fin (- 4), Fin 3, Fin 0, Fin 1]"
    by (simp add: R mat_vec_def dot_def flt_arith)
  have "sqrt 25 = sqrt (5 * 5)" by simp
  then have l: "vec_length [- 4, 3, 0] = 5" "vec_length [3, 4, 0] = 5"
    by (simp_all add: vec_length_def del: real_sqrt_mult_self)
  show ?thesis
    using nz v l rotation_orthogonal [OF nz, of "pi / 2" 3 4 0 1] by simp
qed

text \<open>
  What the quaternion overload returns for the canonical quaternion of a non-zero axis
  and an angle: the transpose of the matrix of the axis-angle overload, which is the
  matrix of the axis-angle overload for the opposite angle.
\<close>

lemma rotation_q_transposed:
  fixes x y z angle :: real
  assumes nz: "(x, y, z) \<noteq> (0, 0, 0)"
  shows "rotation_q (axis_angle_quaternion (Vec3 x y z) angle) = mat_transpose (rotation (Vec3 x y z) angle)
       \<and> rotation_q (axis_angle_quaternion (Vec3 x y z) angle) = rotation (Vec3 x y z) (- angle)"
proof -
  define len where "len = sqrt (x * x + y * y + z * z)"
  define ux uy uz where "ux = x / len" and "uy = y / len" and "uz = z / len"
  define S C where "S = sin (angle / 2)" and "C = cos (angle / 2)"
  have n: "normalize (Vec3 x y z) = Vec3 (Fin ux) (Fin uy) (Fin uz)"
    using normalize_unit(1) [OF nz] by (simp add: ux_def uy_def uz_def len_def)
  have u: "ux * ux + uy * uy + uz * uz = 1"
    using normalize_unit(2) [OF nz] by (simp add: ux_def uy_def uz_def len_def)
  have q: "axis_angle_quaternion (Vec3 x y z) angle = Quaternion C (S * ux) (S * uy) (S * uz)"
    by (simp add: Let_def ux_def uy_def uz_def len_def S_def C_def)
  have cs: "cos angle = 1 - 2 * S * S" "sin angle = 2 * S * C"
    using half_angle [of angle] by (simp_all add: S_def C_def)
  have Q: "rotation_q (Quaternion C (S * ux) (S * uy) (S * uz)) =
     [[Fin (1 - (2 * (S * uy) * (S * uy) + 2 * (S * uz) * (S * uz))), Fin (2 * (S * ux) * (S * uy) + 2 * (S * uz) * C),
       Fin (2 * (S * ux) * (S * uz) - 2 * (S * uy) * C), Fin 0],
      [Fin (2 * (S * ux) * (S * uy) - 2 * (S * uz) * C), Fin (1 - (2 * (S * ux) * (S * ux) + 2 * (S * uz) * (S * uz))),
       Fin (2 * (S * uy) * (S * uz) + 2 * (S * ux) * C), Fin 0],
      [Fin (2 * (S * ux) * (S * uz) + 2 * (S * uy) * C), Fin (2 * (S * uy) * (S * uz) - 2 * (S * ux) * C),
       Fin (1 - (2 * (S * ux) * (S * ux) + 2 * (S * uy) * (S * uy))), Fin 0],
      [Fin 0, Fin 0, Fin 0, Fin 1]]"
    by (simp add: rotation_q_def Let_def flt_arith)
  have p1: "rotation_q (axis_angle_quaternion (Vec3 x y z) angle) = mat_transpose (rotation (Vec3 x y z) angle)"
    unfolding q Q rotation_of_unit [OF n] mat_transpose_4 cs
    using quaternion_diagonal [OF u, of S] quaternion_off_diagonal [of S ux uy uz C]
    by simp
  have p2: "rotation_q (axis_angle_quaternion (Vec3 x y z) angle) = rotation (Vec3 x y z) (- angle)"
    unfolding q Q rotation_of_unit [OF n] cos_minus sin_minus cs
    using quaternion_diagonal [OF u, of S] quaternion_off_diagonal [of S ux uy uz C]
    by simp
  show ?thesis using p1 p2 by simp
qed

text \<open>
  C4. About the axis \<open>(0, 0, 1)\<close> and for the angle \<open>\<pi>/2\<close>, the axis-angle overload
  and the quaternion overload, given the canonical quaternion of that axis and angle,
  return different matrices: the entry \<open>[0][1]\<close> is \<open>-1\<close> in the first and \<open>1\<close> in the
  second, and the point \<open>(1, 0, 0)\<close> is sent to \<open>(0, 1, 0)\<close> by the first and to
  \<open>(0, -1, 0)\<close> by the second.
\<close>

theorem rotation_overloads_differ:
  "((0::real), (0::real), (1::real)) \<noteq> (0, 0, 0)
   \<and> mat_at (rotation (Vec3 0 0 1) (pi / 2)) 0 1 = Fin (- 1)
   \<and> mat_at (rotation_q (axis_angle_quaternion (Vec3 0 0 1) (pi / 2))) 0 1 = Fin 1
   \<and> rotation (Vec3 0 0 1) (pi / 2) \<noteq> rotation_q (axis_angle_quaternion (Vec3 0 0 1) (pi / 2))
   \<and> rotation (Vec3 0 0 1) (pi / 2) =
       [[Fin 0, Fin (- 1), Fin 0, Fin 0],
        [Fin 1, Fin 0,     Fin 0, Fin 0],
        [Fin 0, Fin 0,     Fin 1, Fin 0],
        [Fin 0, Fin 0,     Fin 0, Fin 1]]
   \<and> rotation_q (axis_angle_quaternion (Vec3 0 0 1) (pi / 2)) =
       [[Fin 0,     Fin 1, Fin 0, Fin 0],
        [Fin (- 1), Fin 0, Fin 0, Fin 0],
        [Fin 0,     Fin 0, Fin 1, Fin 0],
        [Fin 0,     Fin 0, Fin 0, Fin 1]]
   \<and> mat_vec (rotation (Vec3 0 0 1) (pi / 2)) [Fin 1, Fin 0, Fin 0, Fin 1] = [Fin 0, Fin 1, Fin 0, Fin 1]
   \<and> mat_vec (rotation_q (axis_angle_quaternion (Vec3 0 0 1) (pi / 2))) [Fin 1, Fin 0, Fin 0, Fin 1]
       = [Fin 0, Fin (- 1), Fin 0, Fin 1]"
proof -
  have A: "rotation (Vec3 0 0 1) (pi / 2) =
       [[Fin 0, Fin (- 1), Fin 0, Fin 0],
        [Fin 1, Fin 0,     Fin 0, Fin 0],
        [Fin 0, Fin 0,     Fin 1, Fin 0],
        [Fin 0, Fin 0,     Fin 0, Fin 1]]"
    by (simp add: rotation_def fdiv_def flt_arith Let_def)
  have "(pi / 2) / 2 = pi / 4" by simp
  then have Q: "rotation_q (axis_angle_quaternion (Vec3 0 0 1) (pi / 2)) =
       [[Fin 0,     Fin 1, Fin 0, Fin 0],
        [Fin (- 1), Fin 0, Fin 0, Fin 0],
        [Fin 0,     Fin 0, Fin 1, Fin 0],
        [Fin 0,     Fin 0, Fin 0, Fin 1]]"
    by (simp add: rotation_q_def sin_45 cos_45 flt_arith)
  show ?thesis
    unfolding A Q by (simp add: mat_at_def mat_vec_def dot_def flt_arith)
qed

end
